theory Spec2Isabelle
  imports Complex_Main
begin

section \<open>Errors, bounding boxes and index ranges\<close>

text \<open>
  The exceptions that \<^verbatim>\<open>regions/core/mask.py\<close> can raise. \<open>ValueError\<close> is raised
  explicitly by the module and by the array library when an assignment cannot be
  broadcast; \<open>TypeError\<close> is what Python raises when \<^verbatim>\<open>None\<close> is an operand
  of \<^verbatim>\<open>*\<close>; \<open>OverflowError\<close> is raised when a number too large for the integer
  type is stored in an integer array.
\<close>

datatype error = ValueError | TypeError | OverflowError

text \<open>
  Modelled from the spec: the class \<^verbatim>\<open>BoundingBox\<close> is not among the sources.
  Its four integer extents are half-open with an exclusive maximum.
\<close>

record BoundingBox =
  ixmin :: int
  ixmax :: int
  iymin :: int
  iymax :: int

text \<open>A Python \<^verbatim>\<open>slice(start, stop)\<close> object with unit step.\<close>

datatype slice = Slice (start: int) (stop: int)

text \<open>
  Modelled from the spec: \<^verbatim>\<open>BoundingBox.shape\<close> is
  \<^verbatim>\<open>(iymax - iymin, ixmax - ixmin)\<close>.
\<close>

definition bbox_shape :: "BoundingBox \<Rightarrow> int \<times> int" where
  "bbox_shape b = (iymax b - iymin b, ixmax b - ixmin b)"

text \<open>
  Modelled from the spec: \<^verbatim>\<open>BoundingBox.slices\<close> is the pair of index ranges
  \<^verbatim>\<open>(slice(iymin, iymax), slice(ixmin, ixmax))\<close>.
\<close>

definition bbox_slices :: "BoundingBox \<Rightarrow> slice \<times> slice" where
  "bbox_slices b = (Slice (iymin b) (iymax b), Slice (ixmin b) (ixmax b))"

text \<open>Modelled from the spec: the invariant of a \<^verbatim>\<open>BoundingBox\<close>.\<close>

definition bbox_ok :: "BoundingBox \<Rightarrow> bool" where
  "bbox_ok b \<longleftrightarrow> ixmin b < ixmax b \<and> iymin b < iymax b"

text \<open>
  \<^verbatim>\<open>Mask._overlap_slices\<close>, as a function of the bounding box and the shape
  tuple. The pair \<^verbatim>\<open>(None, None)\<close> of the source is the value \<open>None\<close>; otherwise the
  result is \<open>Some (slices_large, slices_small)\<close>, each a \<open>(y, x)\<close> pair of slices.
\<close>

definition overlap_slices ::
  "BoundingBox \<Rightarrow> int list \<Rightarrow> error + ((slice \<times> slice) \<times> (slice \<times> slice)) option" where
  "overlap_slices b shape =
     (case shape of
        [shape0, shape1] \<Rightarrow>
          (let xmin = ixmin b; xmax = ixmax b; ymin = iymin b; ymax = iymax b in
           if xmin \<ge> shape1 \<or> ymin \<ge> shape0 \<or> xmax \<le> 0 \<or> ymax \<le> 0 then Inr None
           else
             let slices_large = (Slice (max ymin 0) (min ymax shape0),
                                 Slice (max xmin 0) (min xmax shape1));
                 slices_small = (Slice (max (- ymin) 0) (min (ymax - ymin) (shape0 - ymin)),
                                 Slice (max (- xmin) 0) (min (xmax - xmin) (shape1 - xmin)))
             in Inr (Some (slices_large, slices_small)))
      | _ \<Rightarrow> Inl ValueError)"

text \<open>The extent \<open>stop - start\<close> of an index range.\<close>

definition slice_extent :: "slice \<Rightarrow> int" where
  "slice_extent s = stop s - start s"

section \<open>Arrays\<close>

text \<open>
  The part of the array library that the module uses, for two-dimensional arrays. An
  array has a shape \<open>(ny, nx)\<close>, an element type and \<open>ny\<close> rows of \<open>nx\<close> cells. Numbers
  are idealised as rationals, so every number is finite; an integer array holds integral
  values, and \<open>Int_dtype\<close> is the 64-bit integer type.
\<close>

datatype dtype = Int_dtype | Float_dtype

record ndarray =
  ny :: nat
  nx :: nat
  dtype :: dtype
  cells :: "rat list list"

definition wf_array :: "ndarray \<Rightarrow> bool" where
  "wf_array a \<longleftrightarrow> length (cells a) = ny a \<and> list_all (\<lambda>r. length r = nx a) (cells a)"

definition tabulate2 :: "nat \<Rightarrow> nat \<Rightarrow> (nat \<Rightarrow> nat \<Rightarrow> 'a) \<Rightarrow> 'a list list" where
  "tabulate2 h w f = map (\<lambda>i. map (\<lambda>j. f i j) [0..<w]) [0..<h]"

text \<open>
  Storing a number in an array of the given element type: a float array keeps it, an
  integer array truncates it towards zero.
\<close>

definition astype :: "dtype \<Rightarrow> rat \<Rightarrow> rat" where
  "astype t x =
     (case t of
        Float_dtype \<Rightarrow> x
      | Int_dtype \<Rightarrow> of_int (if x \<ge> 0 then \<lfloor>x\<rfloor> else \<lceil>x\<rceil>))"

text \<open>Copying a cell between arrays: unchanged when the element types agree.\<close>

definition convert :: "dtype \<Rightarrow> dtype \<Rightarrow> rat \<Rightarrow> rat" where
  "convert t_from t_to x = (if t_from = t_to then x else astype t_to x)"

text \<open>\<^verbatim>\<open>np.zeros(shape, dtype)\<close>.\<close>

definition zeros :: "nat \<times> nat \<Rightarrow> dtype \<Rightarrow> ndarray" where
  "zeros shp t =
     \<lparr>ny = fst shp, nx = snd shp, dtype = t, cells = tabulate2 (fst shp) (snd shp) (\<lambda>i j. 0)\<rparr>"

text \<open>
  How Python resolves one bound of a slice against an axis of length \<open>n\<close>: a negative
  bound counts from the end, and the result is clamped to \<open>[0, n]\<close>.
\<close>

definition slice_bound :: "nat \<Rightarrow> int \<Rightarrow> nat" where
  "slice_bound n i =
     (if i < 0 then (if i + int n < 0 then 0 else nat (i + int n))
      else if i \<ge> int n then n else nat i)"

definition slice_indices :: "slice \<Rightarrow> nat \<Rightarrow> nat \<times> nat" where
  "slice_indices s n = (slice_bound n (start s), slice_bound n (stop s))"

definition slice_length :: "slice \<Rightarrow> nat \<Rightarrow> nat" where
  "slice_length s n =
     (let (a, b) = slice_indices s n in if a < b then b - a else 0)"

text \<open>\<^verbatim>\<open>a[(sy, sx)]\<close> for a pair of slices: the selected rows and columns.\<close>

definition getitem :: "ndarray \<Rightarrow> slice \<times> slice \<Rightarrow> ndarray" where
  "getitem a ss =
     (let y0 = fst (slice_indices (fst ss) (ny a));
          x0 = fst (slice_indices (snd ss) (nx a));
          h = slice_length (fst ss) (ny a);
          w = slice_length (snd ss) (nx a)
      in \<lparr>ny = h, nx = w, dtype = dtype a,
          cells = tabulate2 h w (\<lambda>i j. cells a ! (y0 + i) ! (x0 + j))\<rparr>)"

text \<open>
  Whether a value of shape \<open>src\<close> can be assigned to a selection of shape \<open>dst\<close>: on
  each axis the lengths agree or the value has length one and is repeated.
\<close>

definition broadcastable :: "nat \<times> nat \<Rightarrow> nat \<times> nat \<Rightarrow> bool" where
  "broadcastable src dst \<longleftrightarrow>
     (fst src = fst dst \<or> fst src = 1) \<and> (snd src = snd dst \<or> snd src = 1)"

text \<open>
  \<^verbatim>\<open>a[(sy, sx)] = src\<close>: raises \<open>ValueError\<close> when \<open>src\<close> cannot be broadcast to the
  selection, and otherwise returns the array with the selected cells overwritten.
\<close>

definition setitem :: "ndarray \<Rightarrow> slice \<times> slice \<Rightarrow> ndarray \<Rightarrow> error + ndarray" where
  "setitem a ss src =
     (let y0 = fst (slice_indices (fst ss) (ny a));
          x0 = fst (slice_indices (snd ss) (nx a));
          h = slice_length (fst ss) (ny a);
          w = slice_length (snd ss) (nx a)
      in if \<not> broadcastable (ny src, nx src) (h, w) then Inl ValueError
         else Inr (a\<lparr>cells := tabulate2 (ny a) (nx a) (\<lambda>i j.
                if y0 \<le> i \<and> i < y0 + h \<and> x0 \<le> j \<and> j < x0 + w
                then convert (dtype src) (dtype a)
                       (cells src ! (if ny src = 1 then 0 else i - y0)
                                  ! (if nx src = 1 then 0 else j - x0))
                else cells a ! i ! j)\<rparr>))"

text \<open>
  Whether an array of the given element type can store a number: a float array stores every
  number, an integer array those whose truncation fits in 64 bits.
\<close>

definition storable :: "dtype \<Rightarrow> rat \<Rightarrow> bool" where
  "storable t v \<longleftrightarrow>
     t = Float_dtype \<or> (- (2 ^ 63) \<le> astype Int_dtype v \<and> astype Int_dtype v < 2 ^ 63)"

text \<open>
  \<^verbatim>\<open>a[:] = v\<close> for a scalar \<open>v\<close>: the scalar is converted to the element type of the
  array, which raises \<open>OverflowError\<close> when an integer array cannot store it, and is then
  written to every cell.
\<close>

definition fill :: "ndarray \<Rightarrow> rat \<Rightarrow> error + ndarray" where
  "fill a v =
     (if storable (dtype a) v
      then Inr (a\<lparr>cells := tabulate2 (ny a) (nx a) (\<lambda>i j. astype (dtype a) v)\<rparr>)
      else Inl OverflowError)"

text \<open>
  \<^verbatim>\<open>a * b\<close>, elementwise with broadcasting on both sides; \<open>ValueError\<close> when the
  shapes are incompatible.
\<close>

definition broadcast_dim :: "nat \<Rightarrow> nat \<Rightarrow> nat option" where
  "broadcast_dim m n =
     (if m = n then Some m else if m = 1 then Some n else if n = 1 then Some m else None)"

definition result_type :: "dtype \<Rightarrow> dtype \<Rightarrow> dtype" where
  "result_type s t = (if s = Int_dtype \<and> t = Int_dtype then Int_dtype else Float_dtype)"

definition times_array :: "ndarray \<Rightarrow> ndarray \<Rightarrow> error + ndarray" where
  "times_array a b =
     (case (broadcast_dim (ny a) (ny b), broadcast_dim (nx a) (nx b)) of
        (Some h, Some w) \<Rightarrow>
          Inr \<lparr>ny = h, nx = w, dtype = result_type (dtype a) (dtype b),
               cells = tabulate2 h w (\<lambda>i j.
                 cells a ! (if ny a = 1 then 0 else i) ! (if nx a = 1 then 0 else j) *
                 cells b ! (if ny b = 1 then 0 else i) ! (if nx b = 1 then 0 else j))\<rparr>
      | _ \<Rightarrow> Inl ValueError)"

text \<open>
  The input of \<^verbatim>\<open>cutout\<close> and \<^verbatim>\<open>multiply\<close>: a plain array, or an
  \<^verbatim>\<open>astropy.units.Quantity\<close>, an array that carries a unit.
\<close>

datatype 'u array_like = NDArray ndarray | Quantity ndarray 'u

fun array_of :: "'u array_like \<Rightarrow> ndarray" where
  "array_of (NDArray a) = a"
| "array_of (Quantity a u) = a"

fun unit_of :: "'u array_like \<Rightarrow> 'u option" where
  "unit_of (NDArray a) = None"
| "unit_of (Quantity a u) = Some u"

text \<open>Slicing and multiplying a quantity keep its unit.\<close>

fun getitem_like :: "'u array_like \<Rightarrow> slice \<times> slice \<Rightarrow> 'u array_like" where
  "getitem_like (NDArray a) ss = NDArray (getitem a ss)"
| "getitem_like (Quantity a u) ss = Quantity (getitem a ss) u"

fun times_like :: "'u array_like \<Rightarrow> ndarray \<Rightarrow> error + 'u array_like" where
  "times_like (NDArray a) b = map_sum id NDArray (times_array a b)"
| "times_like (Quantity a u) b = map_sum id (\<lambda>c. Quantity c u) (times_array a b)"

section \<open>The region mask\<close>

record Mask =
  data :: ndarray
  bbox :: BoundingBox

text \<open>\<^verbatim>\<open>Mask.__init__\<close>: the shapes of the data and of the bounding box must agree.\<close>

definition Mask_init :: "ndarray \<Rightarrow> BoundingBox \<Rightarrow> error + Mask" where
  "Mask_init d b =
     (if (int (ny d), int (nx d)) \<noteq> bbox_shape b then Inl ValueError
      else Inr \<lparr>data = d, bbox = b\<rparr>)"

text \<open>\<^verbatim>\<open>Mask.shape\<close>.\<close>

definition shape :: "Mask \<Rightarrow> nat \<times> nat" where
  "shape m = (ny (data m), nx (data m))"

text \<open>
  A mask as the module receives it: built by the constructor from a well-formed array
  and a bounding box that satisfies its invariant.
\<close>

definition mask_ok :: "Mask \<Rightarrow> bool" where
  "mask_ok m \<longleftrightarrow>
     wf_array (data m) \<and> Mask_init (data m) (bbox m) = Inr m \<and> bbox_ok (bbox m)"

text \<open>
  \<^verbatim>\<open>Mask.to_image\<close>. The body of the \<^verbatim>\<open>try\<close> is \<open>to_image_fast\<close>, the body of
  the \<^verbatim>\<open>except ValueError\<close> handler is \<open>to_image_fallback\<close>. \<^verbatim>\<open>np.zeros\<close>
  raises \<open>ValueError\<close> on a negative dimension, outside the \<^verbatim>\<open>try\<close>.
\<close>

definition to_image_fast :: "Mask \<Rightarrow> nat \<times> nat \<Rightarrow> error + ndarray" where
  "to_image_fast m shp = setitem (zeros shp Float_dtype) (bbox_slices (bbox m)) (data m)"

definition to_image_fallback :: "Mask \<Rightarrow> nat \<times> nat \<Rightarrow> error + ndarray option" where
  "to_image_fallback m shp =
     (case overlap_slices (bbox m) [int (fst shp), int (snd shp)] of
        Inl e \<Rightarrow> Inl e
      | Inr None \<Rightarrow> Inr None
      | Inr (Some (slices_large, slices_small)) \<Rightarrow>
          (case setitem (zeros shp Float_dtype) slices_large (getitem (data m) slices_small) of
             Inl e \<Rightarrow> Inl e
           | Inr result \<Rightarrow> Inr (Some result)))"

definition to_image :: "Mask \<Rightarrow> int list \<Rightarrow> error + ndarray option" where
  "to_image m shp =
     (case shp of
        [shape0, shape1] \<Rightarrow>
          if shape0 < 0 \<or> shape1 < 0 then Inl ValueError
          else
            (case to_image_fast m (nat shape0, nat shape1) of
               Inr result \<Rightarrow> Inr (Some result)
             | Inl ValueError \<Rightarrow> to_image_fallback m (nat shape0, nat shape1)
             | Inl e \<Rightarrow> Inl e)
      | _ \<Rightarrow> Inl ValueError)"

text \<open>
  \<^verbatim>\<open>Mask.cutout\<close>. \<open>cutout_fast\<close> is the direct slice of the data, \<open>cutout_fallback\<close>
  the body of the \<^verbatim>\<open>if\<close> that runs when the slice has not the shape of the mask.
\<close>

definition cutout_fast :: "Mask \<Rightarrow> 'u array_like \<Rightarrow> 'u array_like" where
  "cutout_fast m d = getitem_like d (bbox_slices (bbox m))"

definition cutout_fallback :: "Mask \<Rightarrow> 'u array_like \<Rightarrow> rat \<Rightarrow> error + 'u array_like option" where
  "cutout_fallback m d fill_value =
     (case overlap_slices (bbox m) [int (ny (array_of d)), int (nx (array_of d))] of
        Inl e \<Rightarrow> Inl e
      | Inr None \<Rightarrow> Inr None
      | Inr (Some (slices_large, slices_small)) \<Rightarrow>
          (case fill (zeros (shape m) (dtype (array_of d))) fill_value of
             Inl e \<Rightarrow> Inl e
           | Inr filled \<Rightarrow>
               (case setitem filled slices_small (getitem (array_of d) slices_large) of
                  Inl e \<Rightarrow> Inl e
                | Inr c \<Rightarrow>
                    Inr (Some (case d of Quantity a u \<Rightarrow> Quantity c u
                               | NDArray a \<Rightarrow> NDArray c)))))"

definition cutout :: "Mask \<Rightarrow> 'u array_like \<Rightarrow> rat \<Rightarrow> error + 'u array_like option" where
  "cutout m d fill_value =
     (let c = cutout_fast m d in
      if (ny (array_of c), nx (array_of c)) \<noteq> shape m then cutout_fallback m d fill_value
      else Inr (Some c))"

text \<open>
  \<^verbatim>\<open>Mask.multiply\<close>: the product of the cutout and the mask data. When the cutout is
  \<^verbatim>\<open>None\<close>, multiplying it by the cells of the mask array raises \<open>TypeError\<close>; the
  mask array has cells, by the invariant of the bounding box.
\<close>

definition multiply :: "Mask \<Rightarrow> 'u array_like \<Rightarrow> rat \<Rightarrow> error + 'u array_like option" where
  "multiply m d fill_value =
     (case cutout m d fill_value of
        Inl e \<Rightarrow> Inl e
      | Inr None \<Rightarrow> Inl TypeError
      | Inr (Some c) \<Rightarrow> map_sum id Some (times_like c (data m)))"


text \<open>
  An axis of length \<open>n\<close> on which Python resolves the range \<^verbatim>\<open>slice(lo, hi)\<close> of the
  bounding box from the end of the axis, to a range as long as the box: the maximum is
  negative and the minimum is not below \<open>- n\<close>.
\<close>

definition axis_wraps :: "int \<Rightarrow> int \<Rightarrow> nat \<Rightarrow> bool" where
  "axis_wraps lo hi n \<longleftrightarrow> hi < 0 \<and> 0 \<le> lo + int n"

text \<open>
  The bounding boxes for which indexing an array of the given shape by
  \<^verbatim>\<open>bbox.slices\<close> selects a region of the shape of the box although the box does not
  lie inside the array: some axis wraps, and every other axis lies inside.
\<close>

definition fast_path_wraps :: "BoundingBox \<Rightarrow> nat \<times> nat \<Rightarrow> bool" where
  "fast_path_wraps b shp \<longleftrightarrow>
     (axis_wraps (iymin b) (iymax b) (fst shp) \<or> axis_wraps (ixmin b) (ixmax b) (snd shp))
     \<and> (axis_wraps (iymin b) (iymax b) (fst shp) \<or> 0 \<le> iymin b \<and> iymax b \<le> int (fst shp))
     \<and> (axis_wraps (ixmin b) (ixmax b) (snd shp) \<or> 0 \<le> ixmin b \<and> ixmax b \<le> int (snd shp))"

section \<open>The overlap-slice computation\<close>

text \<open>
  Claim C2, as the code has it. For the bounding box \<open>ixmin = -2, ixmax = 3, iymin = -2,
  iymax = 3\<close> (a 5 by 5 mask) and the target shape \<open>(4, 4)\<close>, the target-frame ranges are
  \<open>(slice(0, 3), slice(0, 3))\<close> and the local-frame ranges are
  \<open>(slice(2, 5), slice(2, 5))\<close>: rows and columns 2, 3 and 4 of the mask land on rows and
  columns 0, 1 and 2 of the target.
\<close>

theorem overlap_slices_example:
  "overlap_slices \<lparr>ixmin = -2, ixmax = 3, iymin = -2, iymax = 3\<rparr> [4, 4] =
     Inr (Some ((Slice 0 3, Slice 0 3), (Slice 2 5, Slice 2 5)))"
  by (simp add: overlap_slices_def)

text \<open>
  Claim C2, as stated, fails: the local-frame ranges are not
  \<open>(slice(2, 4), slice(2, 4))\<close>, which would be one element shorter than the
  target-frame ranges.
\<close>

theorem overlap_slices_example_not_2_4:
  "overlap_slices \<lparr>ixmin = -2, ixmax = 3, iymin = -2, iymax = 3\<rparr> [4, 4] \<noteq>
     Inr (Some ((Slice 0 3, Slice 0 3), (Slice 2 4, Slice 2 4)))"
  by (simp add: overlap_slices_def)

text \<open>
  Claim C3, amended. For a bounding box with \<open>ixmax > ixmin\<close> and \<open>iymax > iymin\<close> and a
  target shape \<open>(H, W)\<close> with positive extents, the computation returns the "no overlap"
  result exactly when \<open>ixmin \<ge> W\<close> or \<open>iymin \<ge> H\<close> or \<open>ixmax \<le> 0\<close> or \<open>iymax \<le> 0\<close>. A box
  with \<open>ixmax = 0\<close> is therefore no overlap. A box with \<open>ixmax = 1\<close> whose rows meet the
  target (\<open>iymin < H\<close> and \<open>iymax > 0\<close>) overlaps, and its ranges on the x axis are one wide:
  column \<open>- ixmin\<close> of the mask lands on column 0 of the target.
\<close>

theorem no_overlap_iff:
  assumes "bbox_ok b" and "0 < H" and "0 < W"
  shows "(overlap_slices b [H, W] = Inr None \<longleftrightarrow>
            ixmin b \<ge> W \<or> iymin b \<ge> H \<or> ixmax b \<le> 0 \<or> iymax b \<le> 0)
       \<and> (ixmax b = 0 \<longrightarrow> overlap_slices b [H, W] = Inr None)
       \<and> (ixmax b = 1 \<and> iymin b < H \<and> iymax b > 0 \<longrightarrow>
            (\<exists>ly sy. overlap_slices b [H, W] =
               Inr (Some ((ly, Slice 0 1), (sy, Slice (- ixmin b) (1 - ixmin b))))
             \<and> slice_extent (Slice 0 1) = 1
             \<and> slice_extent (Slice (- ixmin b) (1 - ixmin b)) = 1))"
  using assms
  by (auto simp add: overlap_slices_def Let_def bbox_ok_def slice_extent_def)

theorem no_overlap_iff_witness:
  "bbox_ok \<lparr>ixmin = -1, ixmax = 1, iymin = 2, iymax = 4\<rparr>
   \<and> overlap_slices \<lparr>ixmin = -1, ixmax = 1, iymin = 2, iymax = 4\<rparr> [3, 5] \<noteq> Inr None
   \<and> (\<exists>ly sy. overlap_slices \<lparr>ixmin = -1, ixmax = 1, iymin = 2, iymax = 4\<rparr> [3, 5] =
         Inr (Some ((ly, Slice 0 1), (sy, Slice 1 2))))"
proof -
  have h: "bbox_ok \<lparr>ixmin = -1, ixmax = 1, iymin = 2, iymax = 4\<rparr>"
    by (simp add: bbox_ok_def)
  have H: "(0::int) < 3" and W: "(0::int) < 5"
    by simp_all
  show ?thesis
    using h no_overlap_iff [OF h H W] by simp
qed

text \<open>
  Claim C3, as stated, fails: a box with \<open>ixmax = 1\<close> and a target of width 4 is classified
  as no overlap when its rows lie outside the target.
\<close>

theorem ixmax_1_no_overlap:
  "bbox_ok \<lparr>ixmin = 0, ixmax = 1, iymin = 4, iymax = 5\<rparr>
   \<and> overlap_slices \<lparr>ixmin = 0, ixmax = 1, iymin = 4, iymax = 5\<rparr> [4, 4] = Inr None"
  by (simp add: overlap_slices_def bbox_ok_def)

text \<open>
  Claim C4. Whenever the computation reports an overlap, on each axis the local-frame
  range has the same length as the target-frame range.
\<close>

theorem overlap_slices_same_length:
  assumes "overlap_slices b [H, W] = Inr (Some ((ly, lx), (sy, sx)))"
  shows "slice_extent sy = slice_extent ly \<and> slice_extent sx = slice_extent lx"
  using assms
  by (auto simp add: overlap_slices_def Let_def slice_extent_def split: if_splits)

theorem overlap_slices_same_length_witness:
  "overlap_slices \<lparr>ixmin = -2, ixmax = 3, iymin = 1, iymax = 6\<rparr> [4, 4] =
     Inr (Some ((Slice 1 4, Slice 0 3), (Slice 0 3, Slice 2 5)))
   \<and> slice_extent (Slice 0 3) = slice_extent (Slice 1 4)
   \<and> slice_extent (Slice 2 5) = slice_extent (Slice 0 3)"
proof -
  have h: "overlap_slices \<lparr>ixmin = -2, ixmax = 3, iymin = 1, iymax = 6\<rparr> [4, 4] =
     Inr (Some ((Slice 1 4, Slice 0 3), (Slice 0 3, Slice 2 5)))"
    by (simp add: overlap_slices_def)
  show ?thesis
    using h overlap_slices_same_length [OF h] by simp
qed

text \<open>
  Claim C9. For a bounding box with \<open>ixmax > ixmin\<close> and \<open>iymax > iymin\<close> and a target shape
  with positive extents, whenever an overlap is reported every returned range is nonempty,
  the target-frame ranges lie within \<open>[0, H)\<close> and \<open>[0, W)\<close>, and the local-frame ranges lie
  within the extents \<open>iymax - iymin\<close> and \<open>ixmax - ixmin\<close> of the mask array. Python then
  resolves each slice to exactly these bounds, with no wrap-around and no clamping.
\<close>

theorem overlap_slices_in_bounds:
  assumes "bbox_ok b" and "0 < H" and "0 < W"
    and "overlap_slices b [H, W] = Inr (Some ((ly, lx), (sy, sx)))"
  shows "0 \<le> start ly \<and> start ly < stop ly \<and> stop ly \<le> H
       \<and> 0 \<le> start lx \<and> start lx < stop lx \<and> stop lx \<le> W
       \<and> 0 \<le> start sy \<and> start sy < stop sy \<and> stop sy \<le> iymax b - iymin b
       \<and> 0 \<le> start sx \<and> start sx < stop sx \<and> stop sx \<le> ixmax b - ixmin b
       \<and> slice_indices ly (nat H) = (nat (start ly), nat (stop ly))
       \<and> slice_indices lx (nat W) = (nat (start lx), nat (stop lx))
       \<and> slice_indices sy (nat (iymax b - iymin b)) = (nat (start sy), nat (stop sy))
       \<and> slice_indices sx (nat (ixmax b - ixmin b)) = (nat (start sx), nat (stop sx))"
proof -
  have large: "ly = Slice (max (iymin b) 0) (min (iymax b) H)"
    "lx = Slice (max (ixmin b) 0) (min (ixmax b) W)"
    and small: "sy = Slice (max (- iymin b) 0) (min (iymax b - iymin b) (H - iymin b))"
    "sx = Slice (max (- ixmin b) 0) (min (ixmax b - ixmin b) (W - ixmin b))"
    and ov: "ixmin b < W" "iymin b < H" "0 < ixmax b" "0 < iymax b"
    using assms(4) by (auto simp add: overlap_slices_def Let_def split: if_splits)
  have ok: "ixmin b < ixmax b" "iymin b < iymax b"
    using assms(1) by (simp_all add: bbox_ok_def)
  show ?thesis
    using ov ok assms(2,3)
    by (simp add: large small slice_indices_def slice_bound_def)
qed

theorem overlap_slices_in_bounds_witness:
  "bbox_ok \<lparr>ixmin = -2, ixmax = 3, iymin = 1, iymax = 6\<rparr>
   \<and> overlap_slices \<lparr>ixmin = -2, ixmax = 3, iymin = 1, iymax = 6\<rparr> [4, 4] =
       Inr (Some ((Slice 1 4, Slice 0 3), (Slice 0 3, Slice 2 5)))
   \<and> slice_indices (Slice 2 5) (nat 5) = (nat 2, nat 5)"
proof -
  have h: "bbox_ok \<lparr>ixmin = -2, ixmax = 3, iymin = 1, iymax = 6\<rparr>"
    by (simp add: bbox_ok_def)
  have H: "(0::int) < 4"
    by simp
  have ov: "overlap_slices \<lparr>ixmin = -2, ixmax = 3, iymin = 1, iymax = 6\<rparr> [4, 4] =
     Inr (Some ((Slice 1 4, Slice 0 3), (Slice 0 3, Slice 2 5)))"
    by (simp add: overlap_slices_def)
  show ?thesis
    using h ov overlap_slices_in_bounds [OF h H H ov] by simp
qed

section \<open>Arrays, slices and the two paths\<close>

text \<open>Cells of a tabulated array, and slices whose bounds lie within the axis.\<close>

lemma nth_tabulate2: "i < h \<Longrightarrow> j < w \<Longrightarrow> tabulate2 h w f ! i ! j = f i j"
  by (simp add: tabulate2_def)

lemma tabulate2_cong:
  "(\<And>i j. i < h \<Longrightarrow> j < w \<Longrightarrow> f i j = g i j) \<Longrightarrow> tabulate2 h w f = tabulate2 h w g"
  by (simp add: tabulate2_def)





lemma mask_ok_dims:
  assumes "mask_ok m"
  shows "int (ny (data m)) = iymax (bbox m) - iymin (bbox m)"
    and "int (nx (data m)) = ixmax (bbox m) - ixmin (bbox m)"
  using assms by (auto simp add: mask_ok_def Mask_init_def bbox_shape_def split: if_splits)





lemma axis_slices:
  fixes lo hi :: int and n h :: nat
  assumes "int h = hi - lo" and "lo < hi" and "lo < int n" and "0 < hi"
  defines "L \<equiv> Slice (max lo 0) (min hi (int n))"
    and "S \<equiv> Slice (max (- lo) 0) (min (hi - lo) (int n - lo))"
  shows "slice_indices L n = (nat (max lo 0), nat (min hi (int n)))"
    and "slice_indices S h = (nat (max (- lo) 0), nat (min (hi - lo) (int n - lo)))"
    and "slice_length L n = nat (min hi (int n) - max lo 0)"
    and "slice_length S h = nat (min hi (int n) - max lo 0)"
  using assms
  by (auto simp add: slice_indices_def slice_length_def slice_bound_def)

lemma axis_region:
  fixes lo hi :: int and n h i :: nat
  assumes "int h = hi - lo" and "lo < hi" and "lo < int n" and "0 < hi" and "i < h"
  shows "(nat (max (- lo) 0) \<le> i \<and> i < nat (max (- lo) 0) + nat (min hi (int n) - max lo 0))
           \<longleftrightarrow> (0 \<le> lo + int i \<and> lo + int i < int n)"
  using assms by auto

lemma axis_source:
  fixes lo hi :: int and n h i :: nat
  assumes "0 \<le> lo + int i" and "lo + int i < int n"
  shows "nat (max lo 0) + (i - nat (max (- lo) 0)) = nat (lo + int i)"
  using assms by auto

lemma fill_zeros:
  "storable t v \<Longrightarrow> fill (zeros shp t) v =
     Inr \<lparr>ny = fst shp, nx = snd shp, dtype = t,
          cells = tabulate2 (fst shp) (snd shp) (\<lambda>i j. astype t v)\<rparr>"
  "\<not> storable t v \<Longrightarrow> fill (zeros shp t) v = Inl OverflowError"
  by (simp_all add: fill_def zeros_def)

lemma cutout_fallback_array:
  fixes m :: Mask and a :: ndarray
  defines "b \<equiv> bbox m"
  assumes ok: "mask_ok m"
    and ov: "ixmin b < int (nx a)" "iymin b < int (ny a)" "0 < ixmax b" "0 < iymax b"
  shows "setitem \<lparr>ny = ny (data m), nx = nx (data m), dtype = dtype a,
             cells = tabulate2 (ny (data m)) (nx (data m)) (\<lambda>i j. astype (dtype a) fill_value)\<rparr>
           (Slice (max (- iymin b) 0) (min (iymax b - iymin b) (int (ny a) - iymin b)),
            Slice (max (- ixmin b) 0) (min (ixmax b - ixmin b) (int (nx a) - ixmin b)))
           (getitem a (Slice (max (iymin b) 0) (min (iymax b) (int (ny a))),
                       Slice (max (ixmin b) 0) (min (ixmax b) (int (nx a)))))
         = Inr \<lparr>ny = ny (data m), nx = nx (data m), dtype = dtype a,
                cells = tabulate2 (ny (data m)) (nx (data m)) (\<lambda>i j.
                  if 0 \<le> iymin b + int i \<and> iymin b + int i < int (ny a)
                     \<and> 0 \<le> ixmin b + int j \<and> ixmin b + int j < int (nx a)
                  then cells a ! nat (iymin b + int i) ! nat (ixmin b + int j)
                  else astype (dtype a) fill_value)\<rparr>"
proof -
  define h w where "h = ny (data m)" and "w = nx (data m)"
  define sy sx where "sy = nat (max (- iymin b) 0)" and "sx = nat (max (- ixmin b) 0)"
  define ty tx where "ty = nat (max (iymin b) 0)" and "tx = nat (max (ixmin b) 0)"
  define ky kx where "ky = nat (min (iymax b) (int (ny a)) - max (iymin b) 0)"
    and "kx = nat (min (ixmax b) (int (nx a)) - max (ixmin b) 0)"
  define A where "A = \<lparr>ny = ny (data m), nx = nx (data m), dtype = dtype a,
             cells = tabulate2 (ny (data m)) (nx (data m)) (\<lambda>i j. astype (dtype a) fill_value)\<rparr>"
  define src where "src = getitem a (Slice (max (iymin b) 0) (min (iymax b) (int (ny a))),
                       Slice (max (ixmin b) 0) (min (ixmax b) (int (nx a))))"
  have bok: "ixmin b < ixmax b" "iymin b < iymax b"
    using ok by (simp_all add: mask_ok_def bbox_ok_def b_def)
  have dy: "int h = iymax b - iymin b" and dx: "int w = ixmax b - ixmin b"
    using mask_ok_dims[OF ok] by (auto simp add: b_def h_def w_def)
  note ys = axis_slices[OF dy bok(2) ov(2) ov(4)]
  note xs = axis_slices[OF dx bok(1) ov(1) ov(3)]
  have A: "ny A = h" "nx A = w" "dtype A = dtype a"
    by (simp_all add: A_def h_def w_def)
  have A_cells: "cells A ! i ! j = astype (dtype a) fill_value" if "i < h" "j < w" for i j
    using that by (simp add: A_def h_def w_def nth_tabulate2)
  have src: "ny src = ky" "nx src = kx" "dtype src = dtype a"
    by (simp_all add: src_def getitem_def Let_def ys xs ky_def kx_def)
  have src_cells: "cells src ! i ! j = cells a ! (ty + i) ! (tx + j)" if "i < ky" "j < kx" for i j
    using that by (simp add: src_def getitem_def Let_def ys xs ky_def kx_def ty_def tx_def nth_tabulate2)
  have set: "setitem A (Slice (max (- iymin b) 0) (min (iymax b - iymin b) (int (ny a) - iymin b)),
            Slice (max (- ixmin b) 0) (min (ixmax b - ixmin b) (int (nx a) - ixmin b))) src
      = Inr (A\<lparr>cells := tabulate2 h w (\<lambda>i j.
                if sy \<le> i \<and> i < sy + ky \<and> sx \<le> j \<and> j < sx + kx
                then convert (dtype src) (dtype A)
                       (cells src ! (if ny src = 1 then 0 else i - sy)
                                  ! (if nx src = 1 then 0 else j - sx))
                else cells A ! i ! j)\<rparr>)"
    unfolding sy_def sx_def ky_def kx_def
    by (simp add: setitem_def Let_def A src ys xs broadcastable_def ky_def kx_def)
  have cell: "(if sy \<le> i \<and> i < sy + ky \<and> sx \<le> j \<and> j < sx + kx
                then convert (dtype src) (dtype A)
                       (cells src ! (if ny src = 1 then 0 else i - sy)
                                  ! (if nx src = 1 then 0 else j - sx))
                else cells A ! i ! j)
            = (if 0 \<le> iymin b + int i \<and> iymin b + int i < int (ny a)
                  \<and> 0 \<le> ixmin b + int j \<and> ixmin b + int j < int (nx a)
               then cells a ! nat (iymin b + int i) ! nat (ixmin b + int j)
               else astype (dtype a) fill_value)"
    if ij: "i < h" "j < w" for i j
  proof -
    have ry: "(sy \<le> i \<and> i < sy + ky) \<longleftrightarrow> (0 \<le> iymin b + int i \<and> iymin b + int i < int (ny a))"
      unfolding sy_def ky_def by (rule axis_region[OF dy bok(2) ov(2) ov(4) ij(1)])
    have rx: "(sx \<le> j \<and> j < sx + kx) \<longleftrightarrow> (0 \<le> ixmin b + int j \<and> ixmin b + int j < int (nx a))"
      unfolding sx_def kx_def by (rule axis_region[OF dx bok(1) ov(1) ov(3) ij(2)])
    show ?thesis
    proof (cases "sy \<le> i \<and> i < sy + ky \<and> sx \<le> j \<and> j < sx + kx")
      case True
      have iy: "(if ny src = 1 then 0 else i - sy) = i - sy"
        and ix: "(if nx src = 1 then 0 else j - sx) = j - sx"
        using True by (auto simp add: src)
      have lt: "i - sy < ky" "j - sx < kx"
        using True by auto
      have e1: "ty + (i - sy) = nat (iymin b + int i)"
        unfolding ty_def sy_def using True ry by (intro axis_source) auto
      have e2: "tx + (j - sx) = nat (ixmin b + int j)"
        unfolding tx_def sx_def using True rx by (intro axis_source) auto
      have "cells src ! (if ny src = 1 then 0 else i - sy) ! (if nx src = 1 then 0 else j - sx)
          = cells src ! (i - sy) ! (j - sx)"
        by (simp only: iy ix)
      also have "\<dots> = cells a ! (ty + (i - sy)) ! (tx + (j - sx))"
        by (rule src_cells[OF lt])
      also have "\<dots> = cells a ! nat (iymin b + int i) ! nat (ixmin b + int j)"
        by (simp only: e1 e2)
      finally have val: "cells src ! (if ny src = 1 then 0 else i - sy)
            ! (if nx src = 1 then 0 else j - sx)
          = cells a ! nat (iymin b + int i) ! nat (ixmin b + int j)" .
      have conv: "convert (dtype src) (dtype A) x = x" for x
        by (simp add: convert_def src A)
      have c1: "(sy \<le> i \<and> i < sy + ky \<and> sx \<le> j \<and> j < sx + kx) = True"
        using True by simp
      have c2: "(0 \<le> iymin b + int i \<and> iymin b + int i < int (ny a)
                  \<and> 0 \<le> ixmin b + int j \<and> ixmin b + int j < int (nx a)) = True"
        using True ry rx by simp
      show ?thesis
        by (simp only: c1 c2 if_True conv val)
    next
      case False
      then show ?thesis
        using ry rx ij by (auto simp add: A_cells)
    qed
  qed
  have "tabulate2 h w (\<lambda>i j.
                if sy \<le> i \<and> i < sy + ky \<and> sx \<le> j \<and> j < sx + kx
                then convert (dtype src) (dtype A)
                       (cells src ! (if ny src = 1 then 0 else i - sy)
                                  ! (if nx src = 1 then 0 else j - sx))
                else cells A ! i ! j)
      = tabulate2 h w (\<lambda>i j.
                  if 0 \<le> iymin b + int i \<and> iymin b + int i < int (ny a)
                     \<and> 0 \<le> ixmin b + int j \<and> ixmin b + int j < int (nx a)
                  then cells a ! nat (iymin b + int i) ! nat (ixmin b + int j)
                  else astype (dtype a) fill_value)"
    by (rule tabulate2_cong) (rule cell)
  then show ?thesis
    unfolding A_def[symmetric] src_def[symmetric] set
    by (simp add: A_def h_def w_def)
qed

lemma overlap_slices_overlap:
  assumes "ixmin b < int W" "iymin b < int H" "0 < ixmax b" "0 < iymax b"
  shows "overlap_slices b [int H, int W] =
    Inr (Some ((Slice (max (iymin b) 0) (min (iymax b) (int H)),
                Slice (max (ixmin b) 0) (min (ixmax b) (int W))),
               (Slice (max (- iymin b) 0) (min (iymax b - iymin b) (int H - iymin b)),
                Slice (max (- ixmin b) 0) (min (ixmax b - ixmin b) (int W - ixmin b)))))"
  using assms by (simp add: overlap_slices_def Let_def)

lemma cutout_fallback_overlap:
  assumes ok: "mask_ok m"
    and ov: "ixmin (bbox m) < int (nx (array_of d))" "iymin (bbox m) < int (ny (array_of d))"
      "0 < ixmax (bbox m)" "0 < iymax (bbox m)"
    and st: "storable (dtype (array_of d)) fill_value"
  shows "cutout_fallback m d fill_value =
     Inr (Some (case d of
        Quantity a u \<Rightarrow> Quantity
          \<lparr>ny = ny (data m), nx = nx (data m), dtype = dtype (array_of d),
           cells = tabulate2 (ny (data m)) (nx (data m)) (\<lambda>i j.
             if 0 \<le> iymin (bbox m) + int i \<and> iymin (bbox m) + int i < int (ny (array_of d))
                \<and> 0 \<le> ixmin (bbox m) + int j \<and> ixmin (bbox m) + int j < int (nx (array_of d))
             then cells (array_of d) ! nat (iymin (bbox m) + int i) ! nat (ixmin (bbox m) + int j)
             else astype (dtype (array_of d)) fill_value)\<rparr> u
      | NDArray a \<Rightarrow> NDArray
          \<lparr>ny = ny (data m), nx = nx (data m), dtype = dtype (array_of d),
           cells = tabulate2 (ny (data m)) (nx (data m)) (\<lambda>i j.
             if 0 \<le> iymin (bbox m) + int i \<and> iymin (bbox m) + int i < int (ny (array_of d))
                \<and> 0 \<le> ixmin (bbox m) + int j \<and> ixmin (bbox m) + int j < int (nx (array_of d))
             then cells (array_of d) ! nat (iymin (bbox m) + int i) ! nat (ixmin (bbox m) + int j)
             else astype (dtype (array_of d)) fill_value)\<rparr>))"
  unfolding cutout_fallback_def overlap_slices_overlap[OF ov]
  by (simp add: fill_zeros(1)[OF st] shape_def cutout_fallback_array[OF ok ov]
      split: array_like.split)

lemma cutout_fallback_overflow:
  assumes ov: "ixmin (bbox m) < int (nx (array_of d))" "iymin (bbox m) < int (ny (array_of d))"
      "0 < ixmax (bbox m)" "0 < iymax (bbox m)"
    and st: "\<not> storable (dtype (array_of d)) fill_value"
  shows "cutout_fallback m d fill_value = Inl OverflowError"
  unfolding cutout_fallback_def overlap_slices_overlap[OF ov]
  by (simp add: fill_zeros(2)[OF st])

lemma cutout_fallback_no_overlap:
  assumes "\<not> (ixmin (bbox m) < int (nx (array_of d)) \<and> iymin (bbox m) < int (ny (array_of d))
      \<and> 0 < ixmax (bbox m) \<and> 0 < iymax (bbox m))"
  shows "cutout_fallback m d fill_value = Inr None"
  using assms by (auto simp add: cutout_fallback_def overlap_slices_def Let_def)

lemma cutout_fallback_Some:
  assumes "cutout_fallback m d fill_value = Inr (Some r)"
  shows "ixmin (bbox m) < int (nx (array_of d))" "iymin (bbox m) < int (ny (array_of d))"
      "0 < ixmax (bbox m)" "0 < iymax (bbox m)" "storable (dtype (array_of d)) fill_value"
proof -
  show ov: "ixmin (bbox m) < int (nx (array_of d))" "iymin (bbox m) < int (ny (array_of d))"
      "0 < ixmax (bbox m)" "0 < iymax (bbox m)"
    using assms cutout_fallback_no_overlap[of m d fill_value] by auto
  show "storable (dtype (array_of d)) fill_value"
    using assms cutout_fallback_overflow[OF ov, of fill_value] by auto
qed

lemma multiply_cutout_None:
  "cutout m d fill_value = Inr None \<Longrightarrow> multiply m d fill_value = Inl TypeError"
  by (simp add: multiply_def)







lemma cutout_fallback_outside:
  assumes ok: "mask_ok m"
    and res: "cutout_fallback m d fill_value = Inr (Some r)"
    and ij: "i < ny (data m)" "j < nx (data m)"
    and out: "\<not> (0 \<le> iymin (bbox m) + int i \<and> iymin (bbox m) + int i < int (ny (array_of d))
        \<and> 0 \<le> ixmin (bbox m) + int j \<and> ixmin (bbox m) + int j < int (nx (array_of d)))"
  shows "dtype (array_of r) = dtype (array_of d)"
    and "cells (array_of r) ! i ! j = astype (dtype (array_of d)) fill_value"
proof -
  note s = cutout_fallback_Some[OF res]
  show "dtype (array_of r) = dtype (array_of d)"
    and "cells (array_of r) ! i ! j = astype (dtype (array_of d)) fill_value"
    using res out ij unfolding cutout_fallback_overlap[OF ok s]
    by (cases d; auto simp add: nth_tabulate2)+
qed

section \<open>The fast path and the fallback path\<close>




section \<open>The cutout\<close>

text \<open>
  Claim C8. When the data is a quantity with unit \<open>u\<close>, the direct slice carries \<open>u\<close>,
  every array that the fallback returns carries \<open>u\<close>, and so does every array that
  \<^verbatim>\<open>cutout\<close> returns. The fill value is a bare number: the numbers of the result are
  those that \<^verbatim>\<open>cutout\<close> returns for the same array without a unit.
\<close>

theorem cutout_keeps_unit:
  "unit_of (cutout_fast m (Quantity a u)) = Some u
   \<and> (\<forall>r. cutout_fallback m (Quantity a u) fill_value = Inr (Some r) \<longrightarrow> unit_of r = Some u)
   \<and> (\<forall>r. cutout m (Quantity a u) fill_value = Inr (Some r) \<longrightarrow>
          unit_of r = Some u
          \<and> cutout m (NDArray a :: 'u array_like) fill_value = Inr (Some (NDArray (array_of r))))"
  by (auto simp add: cutout_def cutout_fast_def cutout_fallback_def Let_def
      split: sum.splits option.splits if_splits)

theorem cutout_keeps_unit_witness:
  "cutout \<lparr>data = \<lparr>ny = 2, nx = 2, dtype = Float_dtype, cells = [[1, 1 / 2], [1 / 4, 1]]\<rparr>,
           bbox = \<lparr>ixmin = 3, ixmax = 5, iymin = -1, iymax = 1\<rparr>\<rparr>
     (Quantity \<lparr>ny = 3, nx = 4, dtype = Float_dtype,
                cells = [[1, 2, 3, 4], [5, 6, 7, 8], [9, 10, 11, 12]]\<rparr> ''Jy'') 9 =
     Inr (Some (Quantity \<lparr>ny = 2, nx = 2, dtype = Float_dtype, cells = [[9, 9], [4, 9]]\<rparr> ''Jy''))
   \<and> unit_of (Quantity \<lparr>ny = 2, nx = 2, dtype = Float_dtype, cells = [[9, 9], [4, 9]]\<rparr> ''Jy'') =
       Some ''Jy''"
proof -
  let ?m = "\<lparr>data = \<lparr>ny = 2, nx = 2, dtype = Float_dtype, cells = [[1, 1 / 2], [1 / 4, 1]]\<rparr>,
           bbox = \<lparr>ixmin = 3, ixmax = 5, iymin = -1, iymax = 1\<rparr>\<rparr>"
  let ?a = "\<lparr>ny = 3, nx = 4, dtype = Float_dtype,
                cells = [[1, 2, 3, 4], [5, 6, 7, 8], [9, 10, 11, 12]]\<rparr>"
  let ?r = "Quantity \<lparr>ny = 2, nx = 2, dtype = Float_dtype, cells = [[9, 9], [4, 9]]\<rparr> ''Jy''"
  have h: "cutout ?m (Quantity ?a ''Jy'') 9 = Inr (Some ?r)"
    by code_simp
  have "\<forall>r. cutout ?m (Quantity ?a ''Jy'') 9 = Inr (Some r) \<longrightarrow> unit_of r = Some ''Jy''"
    using cutout_keeps_unit [of ?m ?a "''Jy''" 9] by blast
  then have "unit_of ?r = Some ''Jy''"
    using h by blast
  then show ?thesis
    using h by blast
qed

text \<open>
  Claim C10. When \<^verbatim>\<open>cutout\<close> takes its fallback (the direct slice has not the shape
  of the mask) and returns an array, that array has the element type of the data, and every
  pixel of the mask that lies outside the extents of the data holds the fill value coerced
  to that element type. For integer data and the fill value \<open>1/2\<close> such a pixel holds 0,
  not the fill value.
\<close>

theorem cutout_fallback_fill_coerced:
  assumes ok: "mask_ok m"
    and fb: "(ny (array_of (cutout_fast m d)), nx (array_of (cutout_fast m d))) \<noteq> shape m"
    and res: "cutout m d fill_value = Inr (Some r)"
    and ij: "i < ny (data m)" "j < nx (data m)"
    and out: "\<not> (0 \<le> iymin (bbox m) + int i \<and> iymin (bbox m) + int i < int (ny (array_of d))
        \<and> 0 \<le> ixmin (bbox m) + int j \<and> ixmin (bbox m) + int j < int (nx (array_of d)))"
  shows "dtype (array_of r) = dtype (array_of d)
       \<and> cells (array_of r) ! i ! j = astype (dtype (array_of d)) fill_value
       \<and> (dtype (array_of d) = Int_dtype \<and> fill_value = 1 / 2 \<longrightarrow>
            cells (array_of r) ! i ! j = 0 \<and> cells (array_of r) ! i ! j \<noteq> fill_value)"
proof -
  have res': "cutout_fallback m d fill_value = Inr (Some r)"
    using fb res by (simp add: cutout_def Let_def)
  note r = cutout_fallback_outside[OF ok res' ij out]
  have half: "astype Int_dtype (1 / 2) = 0"
    by (simp add: astype_def floor_eq_iff)
  have inst: "cells (array_of r) ! i ! j = 0 \<and> cells (array_of r) ! i ! j \<noteq> fill_value"
    if a: "dtype (array_of d) = Int_dtype \<and> fill_value = 1 / 2"
  proof -
    have "cells (array_of r) ! i ! j = astype Int_dtype (1 / 2)"
      using r(2) a by simp
    then have z: "cells (array_of r) ! i ! j = 0"
      by (simp only: half)
    then show ?thesis
      using a by simp
  qed
  show ?thesis
    using r inst by blast
qed

theorem cutout_fallback_fill_coerced_witness:
  "mask_ok \<lparr>data = \<lparr>ny = 2, nx = 2, dtype = Float_dtype, cells = [[1, 1 / 2], [1 / 4, 1]]\<rparr>,
            bbox = \<lparr>ixmin = 3, ixmax = 5, iymin = -1, iymax = 1\<rparr>\<rparr>
   \<and> cutout \<lparr>data = \<lparr>ny = 2, nx = 2, dtype = Float_dtype, cells = [[1, 1 / 2], [1 / 4, 1]]\<rparr>,
              bbox = \<lparr>ixmin = 3, ixmax = 5, iymin = -1, iymax = 1\<rparr>\<rparr>
        (NDArray \<lparr>ny = 3, nx = 4, dtype = Int_dtype,
                  cells = [[1, 2, 3, 4], [5, 6, 7, 8], [9, 10, 11, 12]]\<rparr> :: string array_like)
        (1 / 2) =
       Inr (Some (NDArray \<lparr>ny = 2, nx = 2, dtype = Int_dtype, cells = [[0, 0], [4, 0]]\<rparr>))
   \<and> cells \<lparr>ny = 2, nx = 2, dtype = Int_dtype, cells = [[0, 0], [4, 0]]\<rparr> ! 0 ! 0 = 0
   \<and> cells \<lparr>ny = 2, nx = 2, dtype = Int_dtype, cells = [[0, 0], [4, 0]]\<rparr> ! 0 ! 0 \<noteq> 1 / 2"
proof -
  let ?m = "\<lparr>data = \<lparr>ny = 2, nx = 2, dtype = Float_dtype, cells = [[1, 1 / 2], [1 / 4, 1]]\<rparr>,
            bbox = \<lparr>ixmin = 3, ixmax = 5, iymin = -1, iymax = 1\<rparr>\<rparr>"
  let ?d = "NDArray \<lparr>ny = 3, nx = 4, dtype = Int_dtype,
                  cells = [[1, 2, 3, 4], [5, 6, 7, 8], [9, 10, 11, 12]]\<rparr> :: string array_like"
  let ?r = "NDArray \<lparr>ny = 2, nx = 2, dtype = Int_dtype, cells = [[0, 0], [4, 0]]\<rparr> :: string array_like"
  have ok: "mask_ok ?m"
    by code_simp
  have fb: "(ny (array_of (cutout_fast ?m ?d)), nx (array_of (cutout_fast ?m ?d))) \<noteq> shape ?m"
    by code_simp
  have res: "cutout ?m ?d (1 / 2) = Inr (Some ?r)"
    by code_simp
  have i: "0 < ny (data ?m)" and j: "0 < nx (data ?m)"
    by simp_all
  have out: "\<not> (0 \<le> iymin (bbox ?m) + int 0 \<and> iymin (bbox ?m) + int 0 < int (ny (array_of ?d))
        \<and> 0 \<le> ixmin (bbox ?m) + int 0 \<and> ixmin (bbox ?m) + int 0 < int (nx (array_of ?d)))"
    by simp
  have "dtype (array_of ?d) = Int_dtype \<and> (1 / 2 :: rat) = 1 / 2"
    by simp
  then have "cells (array_of ?r) ! 0 ! 0 = 0 \<and> cells (array_of ?r) ! 0 ! 0 \<noteq> 1 / 2"
    using cutout_fallback_fill_coerced [OF ok fb res i j out] by blast
  then show ?thesis
    using ok res by simp
qed




text \<open>
  A bounding box with a negative maximum whose minimum lies below minus the extent of the
  data does not wrap: for \<open>ixmin = -10\<close> and \<open>ixmax = -8\<close> on a 3 by 4 array the direct slice
  is empty and \<^verbatim>\<open>cutout\<close> returns \<^verbatim>\<open>None\<close>.
\<close>

lemma cutout_far_negative_box:
  "\<not> fast_path_wraps \<lparr>ixmin = -10, ixmax = -8, iymin = 0, iymax = 2\<rparr> (3, 4)
   \<and> cutout \<lparr>data = \<lparr>ny = 2, nx = 2, dtype = Float_dtype, cells = [[1, 1 / 2], [1 / 4, 1]]\<rparr>,
              bbox = \<lparr>ixmin = -10, ixmax = -8, iymin = 0, iymax = 2\<rparr>\<rparr>
        (NDArray \<lparr>ny = 3, nx = 4, dtype = Float_dtype,
                  cells = [[1, 2, 3, 4], [5, 6, 7, 8], [9, 10, 11, 12]]\<rparr> :: string array_like) 9 =
       Inr None"
  by code_simp

section \<open>The image of the mask\<close>

text \<open>
  Claim C7 at a failing input. For a 2 by 2 mask whose bounding box has \<open>ixmin = -3\<close> and
  \<open>ixmax = -1\<close> and the shape \<open>(3, 4)\<close>, the direct placement of \<^verbatim>\<open>to_image\<close> raises no
  \<open>ValueError\<close>: it writes the weights of the mask into columns 1 and 2 of the image,
  although the bounding box lies fully outside the image and its clipped location is
  empty.
\<close>

theorem to_image_negative_box_wraps:
  "mask_ok \<lparr>data = \<lparr>ny = 2, nx = 2, dtype = Float_dtype, cells = [[1, 1 / 2], [1 / 4, 1]]\<rparr>,
            bbox = \<lparr>ixmin = -3, ixmax = -1, iymin = 0, iymax = 2\<rparr>\<rparr>
   \<and> overlap_slices \<lparr>ixmin = -3, ixmax = -1, iymin = 0, iymax = 2\<rparr> [3, 4] = Inr None
   \<and> to_image \<lparr>data = \<lparr>ny = 2, nx = 2, dtype = Float_dtype, cells = [[1, 1 / 2], [1 / 4, 1]]\<rparr>,
                bbox = \<lparr>ixmin = -3, ixmax = -1, iymin = 0, iymax = 2\<rparr>\<rparr> [3, 4] =
       Inr (Some \<lparr>ny = 3, nx = 4, dtype = Float_dtype,
                  cells = [[0, 1, 1 / 2, 0], [0, 1 / 4, 1, 0], [0, 0, 0, 0]]\<rparr>)"
  by code_simp

section \<open>The product with the mask\<close>

text \<open>
  Claim C1 at a failing input. A 2 by 2 mask whose bounding box has \<open>ixmin = 10\<close> lies fully
  outside a 3 by 4 array; \<^verbatim>\<open>cutout\<close> returns \<^verbatim>\<open>None\<close>, and
  \<^verbatim>\<open>multiply\<close> raises \<open>TypeError\<close> when it multiplies \<^verbatim>\<open>None\<close> by the mask
  array.
\<close>

theorem multiply_no_overlap_raises:
  "overlap_slices \<lparr>ixmin = 10, ixmax = 12, iymin = 0, iymax = 2\<rparr> [3, 4] = Inr None
   \<and> cutout \<lparr>data = \<lparr>ny = 2, nx = 2, dtype = Float_dtype, cells = [[1, 1 / 2], [1 / 4, 1]]\<rparr>,
              bbox = \<lparr>ixmin = 10, ixmax = 12, iymin = 0, iymax = 2\<rparr>\<rparr>
        (NDArray \<lparr>ny = 3, nx = 4, dtype = Float_dtype,
                  cells = [[1, 2, 3, 4], [5, 6, 7, 8], [9, 10, 11, 12]]\<rparr> :: string array_like) 0 =
       Inr None
   \<and> multiply \<lparr>data = \<lparr>ny = 2, nx = 2, dtype = Float_dtype, cells = [[1, 1 / 2], [1 / 4, 1]]\<rparr>,
                bbox = \<lparr>ixmin = 10, ixmax = 12, iymin = 0, iymax = 2\<rparr>\<rparr>
        (NDArray \<lparr>ny = 3, nx = 4, dtype = Float_dtype,
                  cells = [[1, 2, 3, 4], [5, 6, 7, 8], [9, 10, 11, 12]]\<rparr> :: string array_like) 0 =
       Inl TypeError"
  by code_simp

end
